theory Spec2Isabelle
  imports Main
begin

section \<open>Data model (src/app/contexts/TransactionsContext.tsx)\<close>

text \<open>
  The \<^verbatim>\<open>Transaction\<close> type of the transactions context. The fields \<^verbatim>\<open>data\<close>,
  \<^verbatim>\<open>confirmations\<close> and \<^verbatim>\<open>status\<close> are optional in the source, so they are
  options here. Ids are JavaScript numbers that the context only ever produces as array
  indices and array lengths; callers of \<^verbatim>\<open>updateTransactions\<close> may pass any integer.
\<close>

datatype tx_status = executed | failed | pending

record Transaction =
  tx_id :: int
  tx_address :: string
  tx_data :: "string option"
  tx_confirmations :: "string list option"
  tx_status :: "tx_status option"

text \<open>Errors thrown by the runtime or rejected by the chain client, as values.\<close>

datatype js_error = TypeError | RangeError | SyntaxError | ChainError string

section \<open>Sync engine: the list of transactions\<close>

text \<open>
  The object literal \<^verbatim>\<open>{ id, address }\<close> that both branches of the
  \<^verbatim>\<open>transactionCount\<close> effect build: the optional fields are not set.
\<close>

definition placeholder :: "string \<Rightarrow> nat \<Rightarrow> Transaction" where
  "placeholder address i =
     \<lparr>tx_id = int i, tx_address = address, tx_data = None,
      tx_confirmations = None, tx_status = None\<rparr>"

text \<open>
  \<^verbatim>\<open>new Array(len)\<close> with a numeric argument: the constructor throws a
  \<^verbatim>\<open>RangeError\<close> unless \<open>len\<close> is an integer below \<open>2\<^sup>3\<^sup>2\<close>. The count is the
  unsigned integer the contract's \<^verbatim>\<open>transactionCount()\<close> returns;
  \<^verbatim>\<open>parseInt(transactionCount.toString())\<close> reads its decimal digits back, exactly
  below \<open>2\<^sup>5\<^sup>3\<close> and to a number that is still at least \<open>2\<^sup>3\<^sup>2\<close> above. The result
  is the list of the indices that \<^verbatim>\<open>.fill(null).map((_, id) => ...)\<close> visits.
\<close>

definition maxArrayLength :: nat where
  "maxArrayLength = 4294967295"

definition newArray :: "nat \<Rightarrow> js_error + nat list" where
  "newArray len = (if len \<le> maxArrayLength then Inr [0..<len] else Inl RangeError)"

text \<open>
  The effect on \<^verbatim>\<open>[transactionCount]\<close>. It returns the new list, or the error
  thrown before any state was set. \<open>None\<close> is \<^verbatim>\<open>undefined\<close> (no count resolved yet).
\<close>

definition transactionCountEffect ::
    "string \<Rightarrow> nat option \<Rightarrow> Transaction list \<Rightarrow> js_error + Transaction list" where
  "transactionCountEffect address transactionCount transactions =
     (case transactionCount of
        None \<Rightarrow> Inr transactions
      | Some count \<Rightarrow>
          if length transactions \<noteq> 0
          then Inr (placeholder address (length transactions) # transactions)
          else (case newArray count of
                  Inl e \<Rightarrow> Inl e
                | Inr ids \<Rightarrow> Inr (map (placeholder address) ids)))"

text \<open>\<^verbatim>\<open>updateTransactions\<close>: the state updater \<^verbatim>\<open>txs.map(...)\<close>.\<close>

definition updateTransactions :: "Transaction \<Rightarrow> Transaction list \<Rightarrow> Transaction list" where
  "updateTransactions tx txs =
     map (\<lambda>transaction. if tx_id tx = tx_id transaction then tx else transaction) txs"

text \<open>
  The operations that change the list, as events, and the list after a run of them.
  An effect that throws sets no state, so the list stays as it was.
\<close>

datatype sync_event = CountResolved "nat option" | UpdateTransactions Transaction

definition syncStep :: "string \<Rightarrow> Transaction list \<Rightarrow> sync_event \<Rightarrow> Transaction list" where
  "syncStep address txs ev =
     (case ev of
        CountResolved c \<Rightarrow>
          (case transactionCountEffect address c txs of Inl e \<Rightarrow> txs | Inr txs' \<Rightarrow> txs')
      | UpdateTransactions tx \<Rightarrow> updateTransactions tx txs)"

definition syncRun :: "string \<Rightarrow> Transaction list \<Rightarrow> sync_event list \<Rightarrow> Transaction list" where
  "syncRun address txs evs = foldl (syncStep address) txs evs"

text \<open>The ids of a list are dense: each of \<open>0 .. length - 1\<close> occurs exactly once.\<close>

definition idsDense :: "Transaction list \<Rightarrow> bool" where
  "idsDense txs \<longleftrightarrow>
     set (map tx_id txs) = set (map int [0..<length txs]) \<and> distinct (map tx_id txs)"

section \<open>Fetcher state and the loading flag\<close>

text \<open>
  What the provider reads from its hooks: the router (\<^verbatim>\<open>isReady\<close>,
  \<^verbatim>\<open>query.address\<close>), the web3 connection (\<^verbatim>\<open>library\<close>, \<^verbatim>\<open>chainId\<close>,
  \<^verbatim>\<open>connector\<close>, \<^verbatim>\<open>error\<close>), the response of \<^verbatim>\<open>useSWR\<close> and its own
  \<^verbatim>\<open>transactions\<close> state. An absent value (\<^verbatim>\<open>undefined\<close>) is \<open>None\<close>;
  \<open>library\<close> records whether the provider object is there.
\<close>

record swr_response =
  swr_data :: "nat option"
  swr_isValidating :: bool
  swr_error :: "js_error option"

record provider =
  isReady :: bool
  query_address :: string
  library :: bool
  chainId :: "nat option"
  connector :: "nat list option option"
  web3Error :: "js_error option"
  swr :: swr_response
  transactions :: "Transaction list"

text \<open>\<^verbatim>\<open>Boolean(chainId)\<close>: a number is truthy unless it is zero.\<close>

definition canFetch :: "provider \<Rightarrow> bool" where
  "canFetch p \<longleftrightarrow> isReady p \<and> (case chainId p of None \<Rightarrow> False | Some c \<Rightarrow> c \<noteq> 0)"

text \<open>
  \<^verbatim>\<open>connector?.supportedChainIds?.includes(chainId)\<close>; \<open>isAddress\<close> is the
  address check of the chain library, a parameter of the model.
\<close>

definition includesChainId :: "provider \<Rightarrow> bool" where
  "includesChainId p \<longleftrightarrow>
     (case connector p of
        None \<Rightarrow> False
      | Some None \<Rightarrow> False
      | Some (Some ids) \<Rightarrow> (case chainId p of None \<Rightarrow> False | Some c \<Rightarrow> c \<in> set ids))"

definition shouldFetch :: "(string \<Rightarrow> bool) \<Rightarrow> provider \<Rightarrow> bool" where
  "shouldFetch isAddress p \<longleftrightarrow>
     canFetch p \<and> isAddress (query_address p) \<and> library p \<and> includesChainId p"

definition isLoading :: "(string \<Rightarrow> bool) \<Rightarrow> provider \<Rightarrow> bool" where
  "isLoading isAddress p \<longleftrightarrow>
     web3Error p = None \<and> swr_error (swr p) = None \<and>
     (\<not> canFetch p \<or> (shouldFetch isAddress p \<and> swr_isValidating (swr p)))"

text \<open>
  The effect on \<^verbatim>\<open>[chainId]\<close>: it calls the bound \<^verbatim>\<open>mutate(undefined, true)\<close> of
  the fetch library and nothing else. \<open>mutate\<close> is that library's function, a parameter.
\<close>

definition chainIdEffect ::
    "(nat option \<Rightarrow> bool \<Rightarrow> swr_response \<Rightarrow> swr_response) \<Rightarrow> provider \<Rightarrow> provider" where
  "chainIdEffect mutate p = p\<lparr>swr := mutate None True (swr p)\<rparr>"

text \<open>
  One behaviour a bound \<^verbatim>\<open>mutate(data, shouldRevalidate)\<close> can have: the cached data
  is replaced and a revalidation is started on request. It instantiates the parameter in
  concrete runs.
\<close>

definition revalidatingMutate :: "nat option \<Rightarrow> bool \<Rightarrow> swr_response \<Rightarrow> swr_response" where
  "revalidatingMutate d shouldRevalidate r =
     r\<lparr>swr_data := d, swr_isValidating := shouldRevalidate\<rparr>"

section \<open>Transaction action gateway\<close>

text \<open>
  An \<^verbatim>\<open>async\<close> function ends with a fulfilled promise (its return value) or a
  rejected one (the error thrown inside it).
\<close>

datatype 'r promise = Fulfilled 'r | Rejected js_error

text \<open>
  The multisig contract connected to the signer, \<^verbatim>\<open>contract.connect(library.getSigner())\<close>:
  its three write calls, each giving a pending transaction or failing, and the
  \<^verbatim>\<open>wait()\<close> of a pending transaction, giving the receipt or failing. All four belong to
  the chain client and the contract on chain, so they are parameters.
\<close>

record ('h, 'r) multisig =
  c_submitTransaction :: "string \<Rightarrow> nat \<Rightarrow> string \<Rightarrow> js_error + 'h"
  c_confirmTransaction :: "int \<Rightarrow> js_error + 'h"
  c_revokeConfirmation :: "int \<Rightarrow> js_error + 'h"
  tx_wait :: "'h \<Rightarrow> js_error + 'r"

text \<open>
  \<^verbatim>\<open>const tx = await call; const receipt = await tx.wait(); return receipt;\<close>
  with no \<^verbatim>\<open>try\<close> around either \<^verbatim>\<open>await\<close>.
\<close>

definition awaitReceipt :: "('h, 'r) multisig \<Rightarrow> js_error + 'h \<Rightarrow> 'r promise" where
  "awaitReceipt c call =
     (case call of
        Inl e \<Rightarrow> Rejected e
      | Inr tx \<Rightarrow> (case tx_wait c tx of Inl e \<Rightarrow> Rejected e | Inr receipt \<Rightarrow> Fulfilled receipt))"

text \<open>
  \<^verbatim>\<open>contract?.connect(library.getSigner())?.confirmTransaction(transactionId)\<close>: with no
  contract the chain short-circuits to \<^verbatim>\<open>undefined\<close> and \<^verbatim>\<open>tx.wait()\<close> throws a
  \<^verbatim>\<open>TypeError\<close>; with a contract but no \<^verbatim>\<open>library\<close>, \<^verbatim>\<open>library.getSigner()\<close>
  throws one.
\<close>

definition confirmTx :: "('h, 'r) multisig option \<Rightarrow> bool \<Rightarrow> int \<Rightarrow> 'r promise" where
  "confirmTx contract lib transactionId =
     (case contract of
        None \<Rightarrow> Rejected TypeError
      | Some c \<Rightarrow>
          if \<not> lib then Rejected TypeError
          else awaitReceipt c (c_confirmTransaction c transactionId))"

definition revokeConfirmation :: "('h, 'r) multisig option \<Rightarrow> bool \<Rightarrow> int \<Rightarrow> 'r promise" where
  "revokeConfirmation contract lib transactionId =
     (case contract of
        None \<Rightarrow> Rejected TypeError
      | Some c \<Rightarrow>
          if \<not> lib then Rejected TypeError
          else awaitReceipt c (c_revokeConfirmation c transactionId))"

text \<open>
  The parsed ABI: a list of entries, each with optional \<^verbatim>\<open>type\<close>, \<^verbatim>\<open>name\<close> and
  \<^verbatim>\<open>inputs\<close>; an input has a name.
\<close>

record abi_input =
  input_name :: string
  input_type :: string

record abi_entry =
  entry_type :: "string option"
  entry_name :: "string option"
  entry_inputs :: "abi_input list option"

text \<open>
  \<^verbatim>\<open>new Contract(destination, abi)\<close> gives the destination's address and its
  \<^verbatim>\<open>interface.encodeFunctionData\<close>; the constructor, the encoder and \<^verbatim>\<open>JSON.parse\<close>
  belong to the libraries and can throw. A parse result that is not an array of entries
  makes \<^verbatim>\<open>.filter\<close> throw, which is an error of \<open>JSON_parse\<close> here.
\<close>

record 'v destination =
  dest_address :: string
  encodeFunctionData :: "string \<Rightarrow> 'v option list option \<Rightarrow> js_error + string"

record 'v ethers =
  newContract :: "string \<Rightarrow> string \<Rightarrow> js_error + 'v destination"
  JSON_parse :: "string \<Rightarrow> js_error + abi_entry list"

text \<open>
  \<^verbatim>\<open>.filter((entry) => entry.type === 'function').find((entry) => entry.name === method).inputs\<close>:
  reading \<^verbatim>\<open>.inputs\<close> of \<^verbatim>\<open>undefined\<close> throws when no entry is found.
\<close>

definition abiInputs :: "abi_entry list \<Rightarrow> string \<Rightarrow> js_error + abi_input list option" where
  "abiInputs entries method =
     (case find (\<lambda>entry. entry_name entry = Some method)
             (filter (\<lambda>entry. entry_type entry = Some ''function'') entries) of
        None \<Rightarrow> Inl TypeError
      | Some entry \<Rightarrow> Inr (entry_inputs entry))"

text \<open>
  The argument record is a JavaScript object: its own keys with their values, and the
  properties it inherits through its prototype chain. The read \<^verbatim>\<open>args[name]\<close> gives
  the own value when \<open>name\<close> is a key, otherwise the inherited value, otherwise
  \<^verbatim>\<open>undefined\<close> (\<open>None\<close>).
\<close>

record 'v js_object =
  own :: "string \<rightharpoonup> 'v"
  inherited :: "string \<rightharpoonup> 'v"

definition propertyRead :: "'v js_object \<Rightarrow> string \<Rightarrow> 'v option" where
  "propertyRead obj name =
     (case own obj name of Some v \<Rightarrow> Some v | None \<Rightarrow> inherited obj name)"

text \<open>\<^verbatim>\<open>inputs ? inputs.map((input) => args[input.name]) : undefined\<close>.\<close>

definition orderArgs :: "'v js_object \<Rightarrow> abi_input list option \<Rightarrow> 'v option list option" where
  "orderArgs args inputs =
     (case inputs of
        None \<Rightarrow> None
      | Some ins \<Rightarrow> Some (map (\<lambda>input. propertyRead args (input_name input)) ins))"

definition addNewTx ::
    "'v ethers \<Rightarrow> ('h, 'r) multisig option \<Rightarrow> bool \<Rightarrow>
     string \<Rightarrow> string \<Rightarrow> string \<Rightarrow> 'v js_object \<Rightarrow> 'r promise" where
  "addNewTx eth contract lib destination abi method args =
     (case newContract eth destination abi of
        Inl e \<Rightarrow> Rejected e
      | Inr destinationContract \<Rightarrow>
     (case JSON_parse eth abi of
        Inl e \<Rightarrow> Rejected e
      | Inr entries \<Rightarrow>
     (case abiInputs entries method of
        Inl e \<Rightarrow> Rejected e
      | Inr inputs \<Rightarrow>
     (case contract of
        None \<Rightarrow> Rejected TypeError
      | Some c \<Rightarrow>
          if \<not> lib then Rejected TypeError
          else
            (case encodeFunctionData destinationContract method (orderArgs args inputs) of
               Inl e \<Rightarrow> Rejected e
             | Inr d \<Rightarrow>
                 awaitReceipt c
                   (c_submitTransaction c (dest_address destinationContract) 0 d))))))"

section \<open>Owner form validation (src/app/components/OwnerModal.tsx)\<close>

text \<open>
  \<^verbatim>\<open>toUpperCase\<close> on the strings the form compares: addresses, which are ASCII, so
  only the letters \<open>a\<close> to \<open>z\<close> change.
\<close>

definition toUpperChar :: "char \<Rightarrow> char" where
  "toUpperChar c =
     (let n = (of_char c :: nat) in if 97 \<le> n \<and> n \<le> 122 then char_of (n - 32) else c)"

definition toUpperCase :: "string \<Rightarrow> string" where
  "toUpperCase s = map toUpperChar s"

text \<open>
  The \<^verbatim>\<open>validate\<close> callback of the form. The errors object has the one optional
  key \<^verbatim>\<open>newOwnerAddress\<close>, so it is an optional message. The field value is optional
  where the source writes \<^verbatim>\<open>newOwnerAddress?.length\<close>.
\<close>

definition validate ::
    "(string \<Rightarrow> bool) \<Rightarrow> string list \<Rightarrow> string option \<Rightarrow> string option" where
  "validate isAddress owners newOwnerAddress =
     (case newOwnerAddress of
        None \<Rightarrow> None
      | Some a \<Rightarrow>
          if length a \<noteq> 0 \<and> \<not> isAddress a
          then Some ''Please enter a valid address''
          else if length a \<noteq> 0 \<and>
                  list_ex (\<lambda>owner. toUpperCase owner = toUpperCase a) owners
          then Some ''This address is already an owner''
          else None)"

text \<open>\<^verbatim>\<open>canSubmit\<close>: the submit button is enabled only with a value and no error.\<close>

definition canSubmit :: "string \<Rightarrow> string option \<Rightarrow> bool" where
  "canSubmit newOwnerAddress errors \<longleftrightarrow> length newOwnerAddress \<noteq> 0 \<and> errors = None"

text \<open>
  A check of the written shape of an address, \<open>0x\<close> and forty hexadecimal digits. It
  stands for the chain library's \<^verbatim>\<open>isAddress\<close>, which also verifies the checksum of
  an address written in mixed case, and instantiates the parameter in concrete runs.
\<close>

definition isHexDigit :: "char \<Rightarrow> bool" where
  "isHexDigit c \<longleftrightarrow>
     (let n = (of_char c :: nat)
      in (48 \<le> n \<and> n \<le> 57) \<or> (65 \<le> n \<and> n \<le> 70) \<or> (97 \<le> n \<and> n \<le> 102))"

definition hexAddressShape :: "string \<Rightarrow> bool" where
  "hexAddressShape s \<longleftrightarrow>
     length s = 42 \<and> take 2 s = ''0x'' \<and> list_all isHexDigit (drop 2 s)"

section \<open>The contract on chain\<close>

text \<open>
  Modelled from the spec: the multisig contract is not among the sources, only its ABI
  is imported. The spec gives its interface (\<^verbatim>\<open>confirmTransaction(id)\<close>,
  \<^verbatim>\<open>revokeConfirmation(id)\<close>) and says that, with \<open>n\<close> transactions on chain, a
  confirmation or revocation of an id outside \<open>0 .. n - 1\<close> fails as part of the network
  call. A connected contract meets this when both calls fail for every such id.
\<close>

definition rejectsUnknownIds :: "nat \<Rightarrow> ('h, 'r) multisig \<Rightarrow> bool" where
  "rejectsUnknownIds n c \<longleftrightarrow>
     (\<forall>j. j < 0 \<or> int n \<le> j \<longrightarrow>
        isl (c_confirmTransaction c j) \<and> isl (c_revokeConfirmation c j))"

text \<open>
  Modelled from the spec: one such contract, holding \<open>n\<close> transactions. It reverts a
  confirmation or revocation of an id outside \<open>0 .. n - 1\<close> and accepts the others.
\<close>

definition checkingMultisig :: "nat \<Rightarrow> (int, string) multisig" where
  "checkingMultisig n =
     \<lparr>c_submitTransaction = (\<lambda>dest v d. Inr (int n)),
      c_confirmTransaction =
        (\<lambda>i. if 0 \<le> i \<and> i < int n then Inr i else Inl (ChainError ''execution reverted'')),
      c_revokeConfirmation =
        (\<lambda>i. if 0 \<le> i \<and> i < int n then Inr i else Inl (ChainError ''execution reverted'')),
      tx_wait = (\<lambda>h. Inr ''receipt'')\<rparr>"

section \<open>Concrete collaborators for the runs below\<close>

text \<open>
  The chain client and the libraries are parameters of the model. These are instances
  of them, small enough to run: a multisig that reverts every call (the account is not
  an owner), one whose receipt wait fails, one whose receipt shows the destination and
  the call data it was given, and a library whose encoder writes down, in order, the
  method and the argument slots it was given (\<open>?\<close> for an absent one). Argument values
  are strings, or the built-in functions and objects a plain object inherits from
  \<^verbatim>\<open>Object.prototype\<close>.
\<close>

definition strangerMultisig :: "(int, string) multisig" where
  "strangerMultisig =
     \<lparr>c_submitTransaction = (\<lambda>dest v d. Inl (ChainError ''execution reverted'')),
      c_confirmTransaction = (\<lambda>i. Inl (ChainError ''execution reverted'')),
      c_revokeConfirmation = (\<lambda>i. Inl (ChainError ''execution reverted'')),
      tx_wait = (\<lambda>h. Inr ''receipt'')\<rparr>"

definition droppedMultisig :: "(int, string) multisig" where
  "droppedMultisig =
     \<lparr>c_submitTransaction = (\<lambda>dest v d. Inr 0),
      c_confirmTransaction = (\<lambda>i. Inr i),
      c_revokeConfirmation = (\<lambda>i. Inr i),
      tx_wait = (\<lambda>h. Inl (ChainError ''network dropped''))\<rparr>"

definition recordingMultisig :: "(string, string) multisig" where
  "recordingMultisig =
     \<lparr>c_submitTransaction = (\<lambda>dest v d. Inr (dest @ '':'' @ d)),
      c_confirmTransaction = (\<lambda>i. Inr ''confirm''),
      c_revokeConfirmation = (\<lambda>i. Inr ''revoke''),
      tx_wait = (\<lambda>h. Inr h)\<rparr>"

datatype js_value = JString string | JFunction string | JObject string

definition objectPrototype :: "string \<rightharpoonup> js_value" where
  "objectPrototype =
     map_of
       [(''constructor'', JFunction ''Object''),
        (''hasOwnProperty'', JFunction ''hasOwnProperty''),
        (''isPrototypeOf'', JFunction ''isPrototypeOf''),
        (''propertyIsEnumerable'', JFunction ''propertyIsEnumerable''),
        (''toLocaleString'', JFunction ''toLocaleString''),
        (''toString'', JFunction ''toString''),
        (''valueOf'', JFunction ''valueOf''),
        (''__defineGetter__'', JFunction ''__defineGetter__''),
        (''__defineSetter__'', JFunction ''__defineSetter__''),
        (''__lookupGetter__'', JFunction ''__lookupGetter__''),
        (''__lookupSetter__'', JFunction ''__lookupSetter__''),
        (''__proto__'', JObject ''Object.prototype'')]"

text \<open>An object literal with the given keys: it inherits from \<^verbatim>\<open>Object.prototype\<close>.\<close>

definition plainObject :: "(string \<rightharpoonup> js_value) \<Rightarrow> js_value js_object" where
  "plainObject keys = \<lparr>own = keys, inherited = objectPrototype\<rparr>"

definition showSlot :: "js_value option \<Rightarrow> string" where
  "showSlot v =
     (case v of
        None \<Rightarrow> ''?''
      | Some (JString s) \<Rightarrow> s
      | Some (JFunction f) \<Rightarrow> ''function '' @ f
      | Some (JObject ob) \<Rightarrow> ''object '' @ ob)"

definition listingEncoder :: "string \<Rightarrow> js_value option list option \<Rightarrow> js_error + string" where
  "listingEncoder method slots =
     (case slots of
        None \<Rightarrow> Inr method
      | Some vs \<Rightarrow> Inr (method @ concat (map (\<lambda>v. '','' @ showSlot v) vs)))"

definition transferAbi :: "abi_entry list" where
  "transferAbi =
     [\<lparr>entry_type = Some ''event'', entry_name = Some ''transfer'', entry_inputs = Some []\<rparr>,
      \<lparr>entry_type = Some ''function'', entry_name = Some ''transfer'',
       entry_inputs = Some [\<lparr>input_name = ''to'', input_type = ''address''\<rparr>,
                            \<lparr>input_name = ''amount'', input_type = ''uint256''\<rparr>]\<rparr>]"

definition stampAbi :: "abi_entry list" where
  "stampAbi =
     [\<lparr>entry_type = Some ''function'', entry_name = Some ''stamp'',
       entry_inputs = Some [\<lparr>input_name = ''toString'', input_type = ''bool''\<rparr>,
                            \<lparr>input_name = ''amount'', input_type = ''uint256''\<rparr>]\<rparr>]"

definition listingEthers :: "abi_entry list \<Rightarrow> js_value ethers" where
  "listingEthers entries =
     \<lparr>newContract =
        (\<lambda>dest abi. Inr \<lparr>dest_address = dest, encodeFunctionData = listingEncoder\<rparr>),
      JSON_parse = (\<lambda>abi. Inr entries)\<rparr>"

text \<open>
  A wallet address, the same address as an owner in its checksum spelling, and three
  providers: one that holds a transaction and has just moved
  to chain 5, which its connector does not support; one on a supported chain; one whose
  fetch has failed while a revalidation is in flight.
\<close>

definition walletA :: string where
  "walletA = ''0x52908400098527886e0f7030069857d2e4169ee7''"

definition switchedProvider :: provider where
  "switchedProvider =
     \<lparr>isReady = True, query_address = walletA, library = True, chainId = Some 5,
      connector = Some (Some [1, 4]), web3Error = None,
      swr = \<lparr>swr_data = Some 1, swr_isValidating = False, swr_error = None\<rparr>,
      transactions = [placeholder walletA 0]\<rparr>"

definition readyProvider :: provider where
  "readyProvider =
     \<lparr>isReady = True, query_address = walletA, library = True, chainId = Some 4,
      connector = Some (Some [1, 4]), web3Error = None,
      swr = \<lparr>swr_data = Some 1, swr_isValidating = False, swr_error = None\<rparr>,
      transactions = [placeholder walletA 0]\<rparr>"

definition ownerA :: string where
  "ownerA = ''0x52908400098527886E0F7030069857D2E4169EE7''"

definition failedProvider :: provider where
  "failedProvider =
     \<lparr>isReady = True, query_address = walletA, library = True, chainId = Some 1,
      connector = Some (Some [1, 4]), web3Error = None,
      swr = \<lparr>swr_data = None, swr_isValidating = True,
             swr_error = Some (ChainError ''call revert exception'')\<rparr>,
      transactions = []\<rparr>"

section \<open>Auxiliary facts\<close>

lemma updateTransactions_absent:
  "tx_id tx \<notin> tx_id ` set txs \<Longrightarrow> updateTransactions tx txs = txs"
  unfolding updateTransactions_def
  by (induction txs) auto

lemma updateTransactions_length: "length (updateTransactions tx txs) = length txs"
  by (simp add: updateTransactions_def)

lemma updateTransactions_nth:
  "i < length txs \<Longrightarrow>
     updateTransactions tx txs ! i = (if tx_id (txs ! i) = tx_id tx then tx else txs ! i)"
  by (auto simp: updateTransactions_def)

lemma updateTransactions_idem:
  "updateTransactions tx (updateTransactions tx txs) = updateTransactions tx txs"
  unfolding updateTransactions_def
  by (induction txs) auto

lemma idsDense_Nil: "idsDense []"
  by (simp add: idsDense_def)

lemma idsDense_update: "idsDense txs \<Longrightarrow> idsDense (updateTransactions tx txs)"
proof -
  have "map tx_id (updateTransactions tx txs) = map tx_id txs"
    by (simp add: updateTransactions_def)
  moreover have "length (updateTransactions tx txs) = length txs"
    by (rule updateTransactions_length)
  ultimately show "idsDense txs \<Longrightarrow> idsDense (updateTransactions tx txs)"
    unfolding idsDense_def by metis
qed

lemma idsDense_materialize: "idsDense (map (placeholder a) [0..<n])"
  by (simp add: idsDense_def placeholder_def distinct_map inj_on_def)

lemma idsDense_prepend: "idsDense txs \<Longrightarrow> idsDense (placeholder a (length txs) # txs)"
  by (auto simp: idsDense_def placeholder_def)

lemma idsDense_step: "idsDense txs \<Longrightarrow> idsDense (syncStep a txs ev)"
  by (cases ev)
     (auto simp: syncStep_def transactionCountEffect_def newArray_def idsDense_update
        idsDense_materialize idsDense_prepend split: option.splits)

lemma idsDense_run: "idsDense txs \<Longrightarrow> idsDense (syncRun a txs evs)"
  unfolding syncRun_def
  by (induction evs arbitrary: txs) (simp_all add: idsDense_step)

lemma chainIdEffect_transactions:
  "transactions (chainIdEffect mutate p) = transactions p"
  by (simp add: chainIdEffect_def)

lemma awaitReceipt_Rejected:
  "awaitReceipt c call = Rejected e \<longleftrightarrow>
     call = Inl e \<or> (\<exists>h. call = Inr h \<and> tx_wait c h = Inl e)"
  by (auto simp: awaitReceipt_def split: sum.splits)

lemma confirmTx_connected:
  "confirmTx (Some c) True i = awaitReceipt c (c_confirmTransaction c i)"
  by (simp add: confirmTx_def)

lemma revokeConfirmation_connected:
  "revokeConfirmation (Some c) True i = awaitReceipt c (c_revokeConfirmation c i)"
  by (simp add: revokeConfirmation_def)

lemma addNewTx_connected:
  "newContract eth destination abi = Inr dc \<Longrightarrow> JSON_parse eth abi = Inr entries \<Longrightarrow>
   abiInputs entries method = Inr inputs \<Longrightarrow>
   addNewTx eth (Some c) True destination abi method args =
     (case encodeFunctionData dc method (orderArgs args inputs) of
        Inl e \<Rightarrow> Rejected e
      | Inr d \<Rightarrow> awaitReceipt c (c_submitTransaction c (dest_address dc) 0 d))"
  by (simp add: addNewTx_def)

lemma abiInputs_transfer:
  "abiInputs transferAbi ''transfer'' =
     Inr (Some [\<lparr>input_name = ''to'', input_type = ''address''\<rparr>,
                \<lparr>input_name = ''amount'', input_type = ''uint256''\<rparr>])"
  by (simp add: abiInputs_def transferAbi_def)

lemma hexAddressShape_walletA: "hexAddressShape walletA"
  by (simp add: hexAddressShape_def walletA_def isHexDigit_def)

lemma toUpperCase_walletA: "toUpperCase walletA = toUpperCase ownerA"
  by code_simp

section \<open>Bulk materialization\<close>

text \<open>
  Claim C1, as the code has it. When the count \<open>n\<close> resolves while the local list is
  empty and \<open>n\<close> is at most \<open>4294967295\<close>, the largest length an array can have, the
  effect sets a list of exactly \<open>n\<close> transactions whose ids are \<open>0, ..., n - 1\<close> in
  ascending order, each with the wallet address and with data, confirmations and status
  absent. For a larger count \<^verbatim>\<open>new Array\<close> throws and no list is set.
\<close>

theorem count_materializes_placeholders:
  "(n \<le> 4294967295 \<longrightarrow>
      (\<exists>txs. transactionCountEffect a (Some n) [] = Inr txs
         \<and> length txs = n
         \<and> map tx_id txs = map int [0..<n]
         \<and> (\<forall>t \<in> set txs. tx_address t = a \<and> tx_data t = None
                \<and> tx_confirmations t = None \<and> tx_status t = None)))
   \<and> (4294967295 < n \<longrightarrow> transactionCountEffect a (Some n) [] = Inl RangeError)"
  by (auto simp: transactionCountEffect_def newArray_def maxArrayLength_def placeholder_def)

theorem count_materializes_placeholders_witness:
  "transactionCountEffect walletA (Some 3) [] =
     Inr [placeholder walletA 0, placeholder walletA 1, placeholder walletA 2]
   \<and> transactionCountEffect walletA (Some 5000000000) [] = Inl RangeError"
proof
  show "transactionCountEffect walletA (Some 3) [] =
     Inr [placeholder walletA 0, placeholder walletA 1, placeholder walletA 2]"
    using count_materializes_placeholders [of 3 walletA]
    by (simp add: transactionCountEffect_def newArray_def maxArrayLength_def upt_rec
          numeral_2_eq_2 numeral_3_eq_3)
  show "transactionCountEffect walletA (Some 5000000000) [] = Inl RangeError"
    using count_materializes_placeholders [of 5000000000 walletA]
    by simp
qed

text \<open>
  The claim as written, for every count, fails at the count \<open>2\<^sup>3\<^sup>2\<close>: the effect throws
  and materializes nothing.
\<close>

theorem count_beyond_array_length_counterexample:
  "transactionCountEffect walletA (Some 4294967296) [] = Inl RangeError"
  by (simp add: transactionCountEffect_def newArray_def maxArrayLength_def)

section \<open>Optimistic prepend\<close>

text \<open>
  Claim C2. When a count resolves while the local list is not empty, whatever the count
  is, the effect puts exactly one placeholder in front of the list: its id is the length
  the list had, its address is the wallet address, and the entries that were there
  follow it unchanged and in the same order.
\<close>

theorem count_prepends_one_placeholder:
  "txs \<noteq> [] \<Longrightarrow>
     transactionCountEffect a (Some n) txs =
       Inr (\<lparr>tx_id = int (length txs), tx_address = a, tx_data = None,
             tx_confirmations = None, tx_status = None\<rparr> # txs)"
  by (simp add: transactionCountEffect_def placeholder_def)

theorem count_prepends_one_placeholder_witness:
  "[placeholder walletA 2, placeholder walletA 0, placeholder walletA 1] \<noteq> []
   \<and> transactionCountEffect walletA (Some 9)
        [placeholder walletA 2, placeholder walletA 0, placeholder walletA 1]
       = Inr [placeholder walletA 3, placeholder walletA 2, placeholder walletA 0,
              placeholder walletA 1]"
  using count_prepends_one_placeholder
          [of "[placeholder walletA 2, placeholder walletA 0, placeholder walletA 1]"
              walletA 9]
  by (simp add: placeholder_def)

section \<open>Update by id\<close>

text \<open>
  Claim C3. \<^verbatim>\<open>updateTransactions(tx)\<close> leaves the list as it is when no entry has the
  id of \<open>tx\<close>; otherwise the length and the order stay, an entry with that id becomes
  \<open>tx\<close> and every other entry stays; and updating twice with the same \<open>tx\<close> gives the
  same list as updating once.
\<close>

theorem updateTransactions_replaces_by_id:
  "(tx_id tx \<notin> tx_id ` set txs \<longrightarrow> updateTransactions tx txs = txs)
   \<and> length (updateTransactions tx txs) = length txs
   \<and> (\<forall>i < length txs. updateTransactions tx txs ! i =
         (if tx_id (txs ! i) = tx_id tx then tx else txs ! i))
   \<and> updateTransactions tx (updateTransactions tx txs) = updateTransactions tx txs"
  using updateTransactions_absent updateTransactions_length updateTransactions_nth
    updateTransactions_idem
  by blast

theorem updateTransactions_replaces_by_id_witness:
  "updateTransactions (placeholder walletA 1\<lparr>tx_status := Some executed\<rparr>)
       [placeholder walletA 2, placeholder walletA 1, placeholder walletA 0]
     = [placeholder walletA 2, placeholder walletA 1\<lparr>tx_status := Some executed\<rparr>,
        placeholder walletA 0]
   \<and> updateTransactions (placeholder walletA 7)
       [placeholder walletA 2, placeholder walletA 1, placeholder walletA 0]
     = [placeholder walletA 2, placeholder walletA 1, placeholder walletA 0]"
  using updateTransactions_replaces_by_id
          [of "placeholder walletA 1\<lparr>tx_status := Some executed\<rparr>"
              "[placeholder walletA 2, placeholder walletA 1, placeholder walletA 0]"]
        updateTransactions_replaces_by_id
          [of "placeholder walletA 7"
              "[placeholder walletA 2, placeholder walletA 1, placeholder walletA 0]"]
  by (simp add: updateTransactions_def placeholder_def)

section \<open>Density of the ids\<close>

text \<open>
  Claim C10. Start from the empty list the provider is created with and apply any
  sequence of resolved counts (each a bulk materialization or a prepend, as the effect
  decides) and of \<^verbatim>\<open>updateTransactions\<close> calls, with ids in the list or not. The ids
  of the resulting list are exactly \<open>0, ..., length - 1\<close>, no id occurs twice, and the id
  the next prepend would assign, the length, is not in the list.
\<close>

theorem sync_ids_stay_dense:
  "set (map tx_id (syncRun a [] evs)) = int ` {0..<length (syncRun a [] evs)}
   \<and> distinct (map tx_id (syncRun a [] evs))
   \<and> int (length (syncRun a [] evs)) \<notin> set (map tx_id (syncRun a [] evs))"
proof -
  have "idsDense (syncRun a [] evs)"
    by (rule idsDense_run) (rule idsDense_Nil)
  then show ?thesis
    by (auto simp: idsDense_def)
qed

section \<open>Change of chain\<close>

text \<open>
  Claim C4, as the code has it. The effect on a change of \<^verbatim>\<open>chainId\<close> asks the
  fetcher for a forced revalidation, \<^verbatim>\<open>mutate(undefined, true)\<close>. After it the
  provider reports loading exactly when no web3 error and no fetch error is present and
  either fetching is not possible yet or a permitted fetch is validating.
\<close>

theorem chainId_change_revalidates:
  "swr (chainIdEffect mutate p) = mutate None True (swr p)
   \<and> (isLoading isAddress (chainIdEffect mutate p) \<longleftrightarrow>
        web3Error p = None \<and> swr_error (mutate None True (swr p)) = None \<and>
        (\<not> canFetch p \<or>
         (shouldFetch isAddress p \<and> swr_isValidating (mutate None True (swr p)))))"
  by (simp add: chainIdEffect_def isLoading_def canFetch_def shouldFetch_def
        includesChainId_def split: option.splits)

theorem chainId_change_revalidates_witness:
  "canFetch readyProvider
   \<and> swr (chainIdEffect revalidatingMutate readyProvider)
       = \<lparr>swr_data = None, swr_isValidating = True, swr_error = None\<rparr>
   \<and> isLoading hexAddressShape (chainIdEffect revalidatingMutate readyProvider)"
  using chainId_change_revalidates [of revalidatingMutate readyProvider hexAddressShape]
    hexAddressShape_walletA
  by (simp add: readyProvider_def revalidatingMutate_def canFetch_def shouldFetch_def
        includesChainId_def)

text \<open>
  The claim as written fails for a provider that holds one transaction and moves to a
  chain its connector does not support: the effect sets no \<^verbatim>\<open>transactions\<close> state,
  so the list still holds the transaction, and the provider is not loading.
\<close>

theorem chainId_change_keeps_list_counterexample:
  "transactions (chainIdEffect revalidatingMutate switchedProvider) = [placeholder walletA 0]
   \<and> \<not> isLoading hexAddressShape (chainIdEffect revalidatingMutate switchedProvider)"
  by (simp add: chainIdEffect_def revalidatingMutate_def switchedProvider_def isLoading_def
        canFetch_def shouldFetch_def includesChainId_def)

section \<open>Failures of the action gateway\<close>

text \<open>
  Claim C5, as the code has it. None of \<^verbatim>\<open>addNewTx\<close>, \<^verbatim>\<open>confirmTx\<close> and
  \<^verbatim>\<open>revokeConfirmation\<close> catches anything: when the write call is rejected or reverts,
  and when the wait for the receipt fails, the operation ends as a rejected promise that
  carries that error to the caller.
\<close>

theorem gateway_failures_are_rejections:
  "(c_confirmTransaction c i = Inl e \<longrightarrow> confirmTx (Some c) True i = Rejected e)
   \<and> (c_confirmTransaction c i = Inr h \<and> tx_wait c h = Inl e \<longrightarrow>
        confirmTx (Some c) True i = Rejected e)
   \<and> (c_revokeConfirmation c i = Inl e \<longrightarrow> revokeConfirmation (Some c) True i = Rejected e)
   \<and> (c_revokeConfirmation c i = Inr h \<and> tx_wait c h = Inl e \<longrightarrow>
        revokeConfirmation (Some c) True i = Rejected e)
   \<and> (newContract eth destination abi = Inr dc \<and> JSON_parse eth abi = Inr entries \<and>
      abiInputs entries methodName = Inr inputs \<and>
      encodeFunctionData dc methodName (orderArgs args inputs) = Inr d \<longrightarrow>
        (c_submitTransaction c (dest_address dc) 0 d = Inl e \<longrightarrow>
           addNewTx eth (Some c) True destination abi methodName args = Rejected e)
        \<and> (c_submitTransaction c (dest_address dc) 0 d = Inr h \<and> tx_wait c h = Inl e \<longrightarrow>
           addNewTx eth (Some c) True destination abi methodName args = Rejected e))"
  by (simp add: confirmTx_connected revokeConfirmation_connected addNewTx_connected
        awaitReceipt_Rejected)

theorem gateway_failures_are_rejections_witness:
  "confirmTx (Some strangerMultisig) True 0 = Rejected (ChainError ''execution reverted'')
   \<and> revokeConfirmation (Some strangerMultisig) True 0
       = Rejected (ChainError ''execution reverted'')
   \<and> addNewTx (listingEthers transferAbi) (Some strangerMultisig) True walletA ''[]'' ''transfer''
        (plainObject [''to'' \<mapsto> JString ownerA, ''amount'' \<mapsto> JString ''5''])
       = Rejected (ChainError ''execution reverted'')
   \<and> confirmTx (Some droppedMultisig) True 0 = Rejected (ChainError ''network dropped'')
   \<and> revokeConfirmation (Some droppedMultisig) True 0
       = Rejected (ChainError ''network dropped'')
   \<and> addNewTx (listingEthers transferAbi) (Some droppedMultisig) True walletA ''[]'' ''transfer''
        (plainObject [''to'' \<mapsto> JString ownerA, ''amount'' \<mapsto> JString ''5''])
       = Rejected (ChainError ''network dropped'')"
  using
    gateway_failures_are_rejections
      [where c = strangerMultisig and i = 0 and e = "ChainError ''execution reverted''"
         and eth = "listingEthers transferAbi" and destination = walletA and abi = "''[]''"
         and dc = "\<lparr>dest_address = walletA, encodeFunctionData = listingEncoder\<rparr>"
         and entries = transferAbi and methodName = "''transfer''"
         and inputs = "Some [\<lparr>input_name = ''to'', input_type = ''address''\<rparr>,
                             \<lparr>input_name = ''amount'', input_type = ''uint256''\<rparr>]"
         and args = "plainObject [''to'' \<mapsto> JString ownerA, ''amount'' \<mapsto> JString ''5'']"
         and d = "''transfer,'' @ ownerA @ '',5''"]
    gateway_failures_are_rejections
      [where c = droppedMultisig and i = 0 and h = 0 and e = "ChainError ''network dropped''"
         and eth = "listingEthers transferAbi" and destination = walletA and abi = "''[]''"
         and dc = "\<lparr>dest_address = walletA, encodeFunctionData = listingEncoder\<rparr>"
         and entries = transferAbi and methodName = "''transfer''"
         and inputs = "Some [\<lparr>input_name = ''to'', input_type = ''address''\<rparr>,
                             \<lparr>input_name = ''amount'', input_type = ''uint256''\<rparr>]"
         and args = "plainObject [''to'' \<mapsto> JString ownerA, ''amount'' \<mapsto> JString ''5'']"
         and d = "''transfer,'' @ ownerA @ '',5''"]
    abiInputs_transfer
  by (simp add: strangerMultisig_def droppedMultisig_def listingEthers_def orderArgs_def
        propertyRead_def plainObject_def listingEncoder_def showSlot_def)

text \<open>
  The claim as written, that no failure passes the gateway as a rejection, fails when
  the contract reverts the confirmation: \<^verbatim>\<open>confirmTx\<close> ends rejected.
\<close>

theorem gateway_rejects_counterexample:
  "confirmTx (Some strangerMultisig) True 0 = Rejected (ChainError ''execution reverted'')"
  by (simp add: confirmTx_def strangerMultisig_def awaitReceipt_def)

section \<open>Ids the chain does not know\<close>

text \<open>
  Claim C6. Let the chain hold \<open>n\<close> transactions and let the contract reject, as part of
  the network call, a confirmation or revocation of any id outside \<open>0 .. n - 1\<close>. Then
  for every such id, with or without a signer, \<^verbatim>\<open>confirmTx(id)\<close> and
  \<^verbatim>\<open>revokeConfirmation(id)\<close> fail: each ends rejected with an error and never
  fulfils with a receipt. Without a contract they fail as well.
\<close>

theorem unknown_id_is_rejected:
  assumes "rejectsUnknownIds n c"
    and "i < 0 \<or> int n \<le> i"
  shows "(\<exists>e. confirmTx (Some c) lib i = Rejected e)
         \<and> (\<exists>e. revokeConfirmation (Some c) lib i = Rejected e)
         \<and> (\<forall>r. confirmTx (Some c) lib i \<noteq> Fulfilled r)
         \<and> (\<forall>r. revokeConfirmation (Some c) lib i \<noteq> Fulfilled r)
         \<and> confirmTx None lib i = Rejected TypeError
         \<and> revokeConfirmation None lib i = Rejected TypeError"
proof -
  from assms obtain e1 e2
    where calls: "c_confirmTransaction c i = Inl e1" "c_revokeConfirmation c i = Inl e2"
    unfolding rejectsUnknownIds_def by (metis isl_def)
  have confirm: "\<exists>e. confirmTx (Some c) lib i = Rejected e"
    using calls(1) by (simp add: confirmTx_def awaitReceipt_def)
  have revoke: "\<exists>e. revokeConfirmation (Some c) lib i = Rejected e"
    using calls(2) by (simp add: revokeConfirmation_def awaitReceipt_def)
  have none: "confirmTx None lib i = Rejected TypeError"
    "revokeConfirmation None lib i = Rejected TypeError"
    by (simp_all add: confirmTx_def revokeConfirmation_def)
  from confirm revoke none show ?thesis
    by auto
qed

theorem unknown_id_is_rejected_witness:
  "rejectsUnknownIds 3 (checkingMultisig 3)
   \<and> confirmTx (Some (checkingMultisig 3)) True 7 = Rejected (ChainError ''execution reverted'')
   \<and> revokeConfirmation (Some (checkingMultisig 3)) True (- 1)
       = Rejected (ChainError ''execution reverted'')
   \<and> confirmTx (Some (checkingMultisig 3)) True 2 = Fulfilled ''receipt''"
proof -
  have meets: "rejectsUnknownIds 3 (checkingMultisig 3)"
    by (simp add: rejectsUnknownIds_def checkingMultisig_def)
  have "(7::int) < 0 \<or> int 3 \<le> 7" "(- 1::int) < 0 \<or> int 3 \<le> - 1"
    by simp_all
  then show ?thesis
    using meets unknown_id_is_rejected [of 3 "checkingMultisig 3" 7 True]
      unknown_id_is_rejected [of 3 "checkingMultisig 3" "- 1" True]
    by (simp add: checkingMultisig_def confirmTx_def revokeConfirmation_def
          awaitReceipt_def)
qed

section \<open>Order of the encoded arguments\<close>

text \<open>
  Claim C7, as the code has it. When the ABI parses and its first function entry named
  \<open>methodName\<close> declares the inputs \<open>ins\<close>, \<^verbatim>\<open>addNewTx\<close> encodes the call with one
  argument slot for each declared input, in the declared order, and submits the encoded
  data to the multisig. Slot \<open>k\<close> is the property of the argument object named by
  input \<open>k\<close>: the value under that key when the object has the key, and absent
  (\<^verbatim>\<open>undefined\<close>) when the name is neither a key nor a property the object inherits.
\<close>

theorem addNewTx_orders_arguments:
  assumes "newContract eth destination abi = Inr dc"
    and "JSON_parse eth abi = Inr entries"
    and "find (\<lambda>entry. entry_name entry = Some methodName)
           (filter (\<lambda>entry. entry_type entry = Some ''function'') entries) = Some entry"
    and "entry_inputs entry = Some ins"
  shows "addNewTx eth (Some c) True destination abi methodName args =
           (case encodeFunctionData dc methodName
                   (Some (map (\<lambda>input. propertyRead args (input_name input)) ins)) of
              Inl e \<Rightarrow> Rejected e
            | Inr d \<Rightarrow> awaitReceipt c (c_submitTransaction c (dest_address dc) 0 d))
         \<and> length (map (\<lambda>input. propertyRead args (input_name input)) ins) = length ins
         \<and> (\<forall>k < length ins.
               (\<forall>v. own args (input_name (ins ! k)) = Some v \<longrightarrow>
                  map (\<lambda>input. propertyRead args (input_name input)) ins ! k = Some v)
               \<and> (own args (input_name (ins ! k)) = None
                  \<and> inherited args (input_name (ins ! k)) = None \<longrightarrow>
                  map (\<lambda>input. propertyRead args (input_name input)) ins ! k = None))"
proof -
  have "abiInputs entries methodName = Inr (Some ins)"
    using assms(3,4) by (simp add: abiInputs_def)
  then show ?thesis
    using assms(1,2,4) by (simp add: addNewTx_connected orderArgs_def propertyRead_def)
qed

theorem addNewTx_orders_arguments_witness:
  "addNewTx (listingEthers transferAbi) (Some recordingMultisig) True ''0xD'' ''[]''
        ''transfer'' (plainObject [''amount'' \<mapsto> JString ''5'', ''memo'' \<mapsto> JString ''hi''])
     = Fulfilled ''0xD:transfer,?,5''
   \<and> addNewTx (listingEthers transferAbi) (Some recordingMultisig) True ''0xD'' ''[]''
        ''transfer'' (plainObject [''amount'' \<mapsto> JString ''5'', ''to'' \<mapsto> JString ''0xB''])
     = Fulfilled ''0xD:transfer,0xB,5''"
  using
    addNewTx_orders_arguments
      [where eth = "listingEthers transferAbi" and destination = "''0xD''" and abi = "''[]''"
         and dc = "\<lparr>dest_address = ''0xD'', encodeFunctionData = listingEncoder\<rparr>"
         and entries = transferAbi and methodName = "''transfer''"
         and entry = "\<lparr>entry_type = Some ''function'', entry_name = Some ''transfer'',
               entry_inputs = Some [\<lparr>input_name = ''to'', input_type = ''address''\<rparr>,
                                    \<lparr>input_name = ''amount'', input_type = ''uint256''\<rparr>]\<rparr>"
         and ins = "[\<lparr>input_name = ''to'', input_type = ''address''\<rparr>,
                     \<lparr>input_name = ''amount'', input_type = ''uint256''\<rparr>]"
         and c = recordingMultisig
         and args = "plainObject [''amount'' \<mapsto> JString ''5'', ''memo'' \<mapsto> JString ''hi'']"]
    addNewTx_orders_arguments
      [where eth = "listingEthers transferAbi" and destination = "''0xD''" and abi = "''[]''"
         and dc = "\<lparr>dest_address = ''0xD'', encodeFunctionData = listingEncoder\<rparr>"
         and entries = transferAbi and methodName = "''transfer''"
         and entry = "\<lparr>entry_type = Some ''function'', entry_name = Some ''transfer'',
               entry_inputs = Some [\<lparr>input_name = ''to'', input_type = ''address''\<rparr>,
                                    \<lparr>input_name = ''amount'', input_type = ''uint256''\<rparr>]\<rparr>"
         and ins = "[\<lparr>input_name = ''to'', input_type = ''address''\<rparr>,
                     \<lparr>input_name = ''amount'', input_type = ''uint256''\<rparr>]"
         and c = recordingMultisig
         and args = "plainObject [''amount'' \<mapsto> JString ''5'', ''to'' \<mapsto> JString ''0xB'']"]
  by (simp add: listingEthers_def transferAbi_def recordingMultisig_def listingEncoder_def
        showSlot_def awaitReceipt_def plainObject_def objectPrototype_def propertyRead_def)

text \<open>
  The claim as written, that a name missing from the argument map gives an absent slot,
  fails for an ABI whose function declares a parameter named \<open>toString\<close>: the object
  literal has no such key, and the slot holds the function every plain object inherits.
\<close>

theorem inherited_name_fills_slot_counterexample:
  "[''amount'' \<mapsto> JString ''5''] ''toString'' = None
   \<and> orderArgs (plainObject [''amount'' \<mapsto> JString ''5''])
        (Some [\<lparr>input_name = ''toString'', input_type = ''bool''\<rparr>,
               \<lparr>input_name = ''amount'', input_type = ''uint256''\<rparr>])
       = Some [Some (JFunction ''toString''), Some (JString ''5'')]
   \<and> addNewTx (listingEthers stampAbi) (Some recordingMultisig) True ''0xD'' ''[]''
        ''stamp'' (plainObject [''amount'' \<mapsto> JString ''5''])
       = Fulfilled ''0xD:stamp,function toString,5''"
  by (simp add: orderArgs_def propertyRead_def plainObject_def objectPrototype_def
        addNewTx_def listingEthers_def stampAbi_def abiInputs_def recordingMultisig_def
        listingEncoder_def showSlot_def awaitReceipt_def)

section \<open>Validation of a new owner\<close>

text \<open>
  Claim C8, as the code has it. For a candidate that is not empty, the validation
  reports \<open>Please enter a valid address\<close> when the address check fails, and
  \<open>This address is already an owner\<close> when the check passes and some owner has the
  same upper-case spelling; in both cases the form cannot be submitted. For the empty
  candidate it reports no error, and it is \<^verbatim>\<open>canSubmit\<close> that keeps the form from
  being submitted. The validation is a function of the candidate and the owners (and of
  the library's address check); it has no access to the chain.
\<close>

theorem validate_rejects_nonempty:
  "(a \<noteq> [] \<and> \<not> isAddress a \<longrightarrow>
      validate isAddress owners (Some a) = Some ''Please enter a valid address'')
   \<and> (a \<noteq> [] \<and> isAddress a \<and> (\<exists>owner \<in> set owners. toUpperCase owner = toUpperCase a) \<longrightarrow>
      validate isAddress owners (Some a) = Some ''This address is already an owner'')
   \<and> (a \<noteq> [] \<and> (\<not> isAddress a \<or> (\<exists>owner \<in> set owners. toUpperCase owner = toUpperCase a)) \<longrightarrow>
      validate isAddress owners (Some a) \<noteq> None
      \<and> \<not> canSubmit a (validate isAddress owners (Some a)))
   \<and> validate isAddress owners (Some []) = None
   \<and> \<not> canSubmit [] (validate isAddress owners (Some []))"
  by (auto simp: validate_def canSubmit_def list_ex_iff)

theorem validate_rejects_nonempty_witness:
  "validate hexAddressShape [ownerA] (Some ''0x5290'') = Some ''Please enter a valid address''
   \<and> validate hexAddressShape [ownerA] (Some walletA) = Some ''This address is already an owner''"
  using validate_rejects_nonempty [of "''0x5290''" hexAddressShape "[ownerA]"]
    validate_rejects_nonempty [of walletA hexAddressShape "[ownerA]"]
    hexAddressShape_walletA toUpperCase_walletA
  by (simp add: hexAddressShape_def walletA_def)

text \<open>
  The claim as written fails at the empty candidate: it is not a valid address, and the
  validation reports no error for it.
\<close>

theorem validate_accepts_empty_counterexample:
  "\<not> hexAddressShape [] \<and> validate hexAddressShape [ownerA] (Some []) = None"
  by (simp add: hexAddressShape_def validate_def)

section \<open>Errors and the loading flag\<close>

text \<open>
  Claim C9. Whatever the connection and the fetch are doing, when a web3 error or a
  fetch error is present the \<^verbatim>\<open>isLoading\<close> flag is false.
\<close>

theorem error_stops_loading:
  "web3Error p \<noteq> None \<or> swr_error (swr p) \<noteq> None \<Longrightarrow> \<not> isLoading isAddress p"
  by (auto simp: isLoading_def)

theorem error_stops_loading_witness:
  "swr_error (swr failedProvider) \<noteq> None \<and> \<not> isLoading hexAddressShape failedProvider
   \<and> swr_isValidating (swr failedProvider) \<and> shouldFetch hexAddressShape failedProvider"
  using error_stops_loading [of failedProvider hexAddressShape] hexAddressShape_walletA
  by (simp add: failedProvider_def shouldFetch_def canFetch_def includesChainId_def)

end
